theory Spec2Isabelle
  imports Main
begin

section \<open>The persisted records\<close>

text \<open>
  The tables the file manager reads and writes. A foreign key is stored as the primary key
  of the row it refers to, as peewee stores it. Only the columns that
  \<^verbatim>\<open>chimedb/cfm/api.py\<close> and \<^verbatim>\<open>chimedb/cfm/tags.py\<close> read or write are kept.
\<close>

record storage_node =
  node_id :: nat
  node_name :: string
  node_group :: nat
  node_root :: string

record archive_acq =
  acq_id :: nat
  acq_name :: string

record archive_file =
  file_id :: nat
  file_acq :: nat
  file_name :: string
  size_b :: int

record archive_file_copy =
  copy_file :: nat
  copy_node :: nat
  has_file :: string

record archive_file_copy_request =
  req_file :: nat
  req_group_to :: nat
  req_node_from :: nat
  req_nice :: int
  req_cancelled :: bool
  req_completed :: bool
  req_n_requests :: int
  req_timestamp :: int

text \<open>\<^verbatim>\<open>tags.py\<close>: \<^verbatim>\<open>FileReservationTag\<close> and \<^verbatim>\<open>FileReservation\<close>. The three
  foreign keys of a reservation are declared without \<^verbatim>\<open>null=True\<close>, so none of them
  can hold NULL: they are plain keys here, not optional ones.\<close>

record file_reservation_tag =
  tag_id :: nat
  tag_name :: string

record file_reservation =
  res_file :: nat
  res_node :: nat
  res_tag :: nat

record database =
  node_table :: "storage_node list"
  acq_table :: "archive_acq list"
  file_table :: "archive_file list"
  copy_table :: "archive_file_copy list"
  request_table :: "archive_file_copy_request list"
  reservation_table :: "file_reservation list"

section \<open>Errors\<close>

text \<open>
  Every exception the modelled code can raise. The three \<open>ValueError\<close> messages are kept
  apart by what they carry:
  \<^item> \<open>NoTagInUse\<close>: \<^verbatim>\<open>ValueError("no tag in use")\<close> of \<^verbatim>\<open>_autotags\<close>;
  \<^item> \<open>NotInSubpath p other\<close>: the \<open>ValueError\<close> of \<^verbatim>\<open>pathlib\<close>'s \<^verbatim>\<open>relative_to\<close>;
  \<^item> \<open>ExpectedTwo t\<close>: \<^verbatim>\<open>ValueError(f"Expected two path elements, but got: {file}")\<close>.
  \<open>AttributeError\<close> carries the name that was not found, \<open>IntegrityError\<close> the column whose
  constraint the insert broke.
\<close>

datatype value_error =
    NoTagInUse
  | NotInSubpath "string list" "string list"
  | ExpectedTwo "string list"

datatype error =
    ValueError value_error
  | AttributeError string
  | IntegrityError string

section \<open>Paths\<close>

text \<open>
  A \<^verbatim>\<open>pathlib\<close> path on a POSIX system is determined by its \<^verbatim>\<open>parts\<close> tuple: the
  root (\<^verbatim>\<open>"/"\<close>, or \<^verbatim>\<open>"//"\<close> for exactly two leading slashes) when there is one, then
  the names, where empty names and \<^verbatim>\<open>"."\<close> are dropped.
\<close>

type_synonym path = "string list"

fun split_on :: "char \<Rightarrow> string \<Rightarrow> string list" where
  "split_on c [] = [[]]"
| "split_on c (x # xs) =
     (if x = c then [] # split_on c xs
      else (case split_on c xs of
              [] \<Rightarrow> [[x]]
            | w # ws \<Rightarrow> (x # w) # ws))"

definition Path :: "string \<Rightarrow> path" where
  "Path s =
     (let names = filter (\<lambda>n. n \<noteq> [] \<and> n \<noteq> ''.'') (split_on CHR ''/'' s)
      in if take 1 s = ''/''
         then (if take 2 s = ''//'' \<and> take 3 s \<noteq> ''///'' then ''//'' else ''/'') # names
         else names)"

definition is_absolute :: "path \<Rightarrow> bool" where
  "is_absolute p = (case p of [] \<Rightarrow> False | r # _ \<Rightarrow> take 1 r = ''/'')"

text \<open>\<^verbatim>\<open>p.relative_to(other)\<close>: the parts of \<open>other\<close> must be the leading parts of \<open>p\<close>
  (and \<open>p\<close> must have no root when \<open>other\<close> is the empty path); the rest is returned.\<close>

definition relative_to :: "path \<Rightarrow> path \<Rightarrow> error + path" where
  "relative_to p other =
     (if (if other = [] then is_absolute p else take (length other) p \<noteq> other)
      then Inl (ValueError (NotInSubpath p other))
      else Inr (drop (length other) p))"

section \<open>The file manager\<close>

datatype copy_flag = PRESENT | AVAILABLE | RESERVED | RECALLED

text \<open>\<^verbatim>\<open>CopyState\<close> is an \<^verbatim>\<open>enum.Flag\<close>: a value is a set of flags, \<^verbatim>\<open>|=\<close> inserts one,
  \<^verbatim>\<open>in\<close> is membership and \<^verbatim>\<open>&\<close> is intersection.\<close>

type_synonym copy_state = "copy_flag set"

record file_manager =
  m_node :: storage_node
  m_sources :: "storage_node list"
  m_tag :: "file_reservation_tag option"

definition init :: "storage_node \<Rightarrow> file_manager" where
  "init node = \<lparr>m_node = node, m_sources = [], m_tag = None\<rparr>"

text \<open>\<^verbatim>\<open>add_source\<close>: a group stands for the nodes that are in it now, a node for itself;
  anything else raises \<open>TypeError\<close>, which the type of the argument excludes here.\<close>

datatype source = Node storage_node | Group nat

definition add_source :: "file_manager \<Rightarrow> database \<Rightarrow> source \<Rightarrow> file_manager" where
  "add_source m db src =
     (case src of
        Group g \<Rightarrow> m\<lparr>m_sources := m_sources m @ filter (\<lambda>node. node_group node = g) (node_table db)\<rparr>
      | Node node \<Rightarrow> m\<lparr>m_sources := m_sources m @ [node]\<rparr>)"

text \<open>\<^verbatim>\<open>use_tag\<close>, given the tag's row (a name is looked up first).\<close>

definition use_tag :: "file_manager \<Rightarrow> file_reservation_tag \<Rightarrow> file_manager" where
  "use_tag m tag = m\<lparr>m_tag := Some tag\<rparr>"

text \<open>\<^verbatim>\<open>_autotags\<close>: \<^verbatim>\<open>None\<close> and the empty list are both falsy.\<close>

definition autotags ::
  "file_manager \<Rightarrow> file_reservation_tag list option \<Rightarrow> error + file_reservation_tag list"
where
  "autotags m tags =
     (case tags of
        Some (t # ts) \<Rightarrow> Inr (t # ts)
      | _ \<Rightarrow> (case m_tag m of
                None \<Rightarrow> Inl (ValueError NoTagInUse)
              | Some t \<Rightarrow> Inr [t]))"

text \<open>
  \<^verbatim>\<open>all_reserved_files\<close>: the inner join of \<^verbatim>\<open>ArchiveFile\<close> with \<^verbatim>\<open>FileReservation\<close>
  on the reservation's file key, filtered on node and tags. The query selects the file's
  columns and has no \<^verbatim>\<open>distinct()\<close>: it yields one row per pair of a file and a matching
  reservation.
\<close>

definition all_reserved_files ::
  "file_manager \<Rightarrow> database \<Rightarrow> file_reservation_tag list option \<Rightarrow> error + archive_file list"
where
  "all_reserved_files m db tags =
     (case autotags m tags of
        Inl e \<Rightarrow> Inl e
      | Inr ts \<Rightarrow>
          Inr [f. f \<leftarrow> file_table db, r \<leftarrow> reservation_table db,
                  res_file r = file_id f,
                  res_node r = node_id (m_node m) \<and> res_tag r \<in> set (map tag_id ts)])"

text \<open>
  \<^verbatim>\<open>reserved_size\<close>: after the tags are resolved, the query is built as
  \<^verbatim>\<open>ArchiveFile(pw.SUM(ArchiveFile.size_b)).join(FileReservation)\<close>. That calls the model
  class, which makes a row object, not a query (\<^verbatim>\<open>ArchiveFile.select(...)\<close> would); a row
  object has no attribute \<^verbatim>\<open>join\<close>, so the lookup raises \<open>AttributeError\<close> before any
  query is sent.
\<close>

definition reserved_size ::
  "file_manager \<Rightarrow> database \<Rightarrow> file_reservation_tag list option \<Rightarrow> error + int"
where
  "reserved_size m db tags =
     (case autotags m tags of
        Inl e \<Rightarrow> Inl e
      | Inr ts \<Rightarrow> Inl (AttributeError ''join''))"

subsection \<open>File specifications\<close>

text \<open>A file is given as a string with a path, a \<^verbatim>\<open>pathlib.Path\<close>, a tuple of strings or
  an \<^verbatim>\<open>ArchiveFile\<close> row; \<^verbatim>\<open>files\<close> is one of these or a list of them.\<close>

datatype filespec =
    FStr string
  | FPath path
  | FTuple "string list"
  | FFile archive_file

datatype files_arg = One filespec | Many "filespec list"

text \<open>
  Path to tuple. The test \<^verbatim>\<open>if file.is_absolute:\<close> names the method without calling it;
  a bound method is truthy, so \<^verbatim>\<open>relative_to(self._node.root)\<close> runs for every path,
  absolute or not.
\<close>

definition path_to_tuple :: "file_manager \<Rightarrow> path \<Rightarrow> error + string list" where
  "path_to_tuple m file = relative_to file (Path (node_root (m_node m)))"

text \<open>
  Tuple to \<^verbatim>\<open>ArchiveFile\<close>: the first row of \<^verbatim>\<open>ArchiveFile\<close> joined with
  \<^verbatim>\<open>ArchiveAcq\<close> that has the two names. When there is none, \<^verbatim>\<open>get()\<close> raises
  \<^verbatim>\<open>DoesNotExist\<close> and Python evaluates the handler's class, \<^verbatim>\<open>pw.NotFoundError\<close>;
  peewee has no such name, so that lookup raises \<open>AttributeError\<close> and the handler's
  \<^verbatim>\<open>ValueError(f"No such file: ...")\<close> is never reached.
\<close>

definition lookup_file :: "database \<Rightarrow> string list \<Rightarrow> error + archive_file" where
  "lookup_file db file =
     (case file of
        [acq, name] \<Rightarrow>
          (case find (\<lambda>f. list_ex (\<lambda>a. acq_id a = file_acq f \<and> acq_name a = acq) (acq_table db)
                           \<and> file_name f = name) (file_table db) of
             Some f \<Rightarrow> Inr f
           | None \<Rightarrow> Inl (AttributeError ''NotFoundError''))
      | _ \<Rightarrow> Inl (ValueError (ExpectedTwo file)))"

fun fixup_one :: "file_manager \<Rightarrow> database \<Rightarrow> filespec \<Rightarrow> error + archive_file" where
  "fixup_one m db (FStr s) =
     (case path_to_tuple m (Path s) of Inl e \<Rightarrow> Inl e | Inr t \<Rightarrow> lookup_file db t)"
| "fixup_one m db (FPath p) =
     (case path_to_tuple m p of Inl e \<Rightarrow> Inl e | Inr t \<Rightarrow> lookup_file db t)"
| "fixup_one m db (FTuple t) = lookup_file db t"
| "fixup_one m db (FFile f) = Inr f"

fun fixup_loop ::
  "file_manager \<Rightarrow> database \<Rightarrow> filespec list \<Rightarrow> archive_file list \<Rightarrow> error + archive_file list"
where
  "fixup_loop m db [] files_out = Inr files_out"
| "fixup_loop m db (file # files) files_out =
     (case fixup_one m db file of
        Inl e \<Rightarrow> Inl e
      | Inr f \<Rightarrow> fixup_loop m db files (files_out @ [f]))"

definition fixup_filespec ::
  "file_manager \<Rightarrow> database \<Rightarrow> files_arg \<Rightarrow> error + archive_file list"
where
  "fixup_filespec m db files =
     fixup_loop m db (case files of One file \<Rightarrow> [file] | Many fs \<Rightarrow> fs) []"

subsection \<open>The state of one file\<close>

text \<open>The conditions of the queries: a copy row of file \<open>f\<close> on one of the \<open>nodes\<close> with
  \<^verbatim>\<open>has_file == "Y"\<close>, and a reservation row of file \<open>f\<close> with tag \<open>t\<close> on node \<open>n\<close>.\<close>

definition copy_on :: "nat \<Rightarrow> nat list \<Rightarrow> archive_file_copy \<Rightarrow> bool" where
  "copy_on f nodes c = (copy_file c = f \<and> copy_node c \<in> set nodes \<and> has_file c = ''Y'')"

definition reserved_by :: "nat \<Rightarrow> nat \<Rightarrow> nat \<Rightarrow> file_reservation \<Rightarrow> bool" where
  "reserved_by f t n r = (res_file r = f \<and> res_tag r = t \<and> res_node r = n)"

text \<open>
  \<^verbatim>\<open>_filecopy_state\<close>. Each \<^verbatim>\<open>get\<close> returns the first matching row or raises
  \<^verbatim>\<open>DoesNotExist\<close>, which is caught. With no tag in use the third query compares the tag
  column with \<^verbatim>\<open>None\<close>, that is \<^verbatim>\<open>IS NULL\<close>, which no row of a column that cannot be
  NULL satisfies.
\<close>

definition filecopy_state ::
  "file_manager \<Rightarrow> database \<Rightarrow> archive_file \<Rightarrow> copy_state \<times> nat option"
where
  "filecopy_state m db file =
     (let state0 = {};
          state1 = (case find (copy_on (file_id file) [node_id (m_node m)]) (copy_table db) of
                      Some _ \<Rightarrow> insert PRESENT state0
                    | None \<Rightarrow> state0);
          (state2, source) =
                   (case find (copy_on (file_id file) (map node_id (m_sources m))) (copy_table db) of
                      Some copy \<Rightarrow> (insert AVAILABLE state1, Some (copy_node copy))
                    | None \<Rightarrow> (state1, None));
          state3 = (case m_tag m of
                      None \<Rightarrow> state2
                    | Some tag \<Rightarrow>
                        (case find (reserved_by (file_id file) (tag_id tag) (node_id (m_node m)))
                                   (reservation_table db) of
                           Some _ \<Rightarrow> insert RESERVED state2
                         | None \<Rightarrow> state2))
      in (state3, source))"

subsection \<open>Writes\<close>

text \<open>
  \<^verbatim>\<open>FileReservation.create(file=file, node=self._node, tag=self._tag)\<close> inserts a row.
  With no tag in use the tag is \<^verbatim>\<open>None\<close>, the insert sends NULL for a column that cannot
  hold it, and the database refuses it: \<open>IntegrityError\<close>, nothing written.
\<close>

definition create_reservation ::
  "database \<Rightarrow> archive_file \<Rightarrow> storage_node \<Rightarrow> file_reservation_tag option
     \<Rightarrow> database \<times> (error + unit)"
where
  "create_reservation db file node tag =
     (case tag of
        None \<Rightarrow> (db, Inl (IntegrityError ''tag''))
      | Some t \<Rightarrow>
          (db\<lparr>reservation_table := reservation_table db @
                 [\<lparr>res_file = file_id file, res_node = node_id node, res_tag = tag_id t\<rparr>]\<rparr>,
           Inr ()))"

text \<open>\<^verbatim>\<open>ArchiveFileCopyRequest.get_or_create(...)\<close>: a row equal to the given one in all the
  given columns is found, or the row is inserted; the flag says which.\<close>

definition get_or_create ::
  "database \<Rightarrow> archive_file_copy_request \<Rightarrow> database \<times> bool"
where
  "get_or_create db req =
     (case find (\<lambda>q. q = req) (request_table db) of
        Some _ \<Rightarrow> (db, False)
      | None \<Rightarrow> (db\<lparr>request_table := request_table db @ [req]\<rparr>, True))"

definition recall_request :: "file_manager \<Rightarrow> archive_file \<Rightarrow> nat \<Rightarrow> archive_file_copy_request"
where
  "recall_request m file source =
     \<lparr>req_file = file_id file, req_group_to = node_group (m_node m), req_node_from = source,
      req_nice = 0, req_cancelled = False, req_completed = False, req_n_requests = 0,
      req_timestamp = 0\<rparr>"

subsection \<open>reserve\<close>

text \<open>The \<^verbatim>\<open>states\<close> dictionary: keyed by the file row, whose equality and hash are those of
  its primary key; assigning to a key already there keeps the key and its place.\<close>

type_synonym states = "(archive_file \<times> copy_state) list"

fun dict_set :: "states \<Rightarrow> archive_file \<Rightarrow> copy_state \<Rightarrow> states" where
  "dict_set [] file state = [(file, state)]"
| "dict_set ((k, v) # kvs) file state =
     (if file_id k = file_id file then (k, state) # kvs
      else (k, v) # dict_set kvs file state)"

text \<open>
  The body of the loop of \<^verbatim>\<open>reserve\<close> for one file, when \<^verbatim>\<open>check_only\<close> is false: the
  reservation, then the recall. The database after the step is returned also when the
  step raises, since what was written before stays written. A state with \<open>AVAILABLE\<close> comes
  with a source node; were there none, the request would be inserted with a NULL
  \<^verbatim>\<open>node_from\<close> and refused.
\<close>

definition reserve_writes ::
  "file_manager \<Rightarrow> archive_file \<Rightarrow> copy_state \<Rightarrow> nat option \<Rightarrow> database
     \<Rightarrow> database \<times> (error + copy_state)"
where
  "reserve_writes m file state source db =
     (case (if RESERVED \<notin> state then create_reservation db file (m_node m) (m_tag m)
            else (db, Inr ())) of
        (db1, Inl e) \<Rightarrow> (db1, Inl e)
      | (db1, Inr _) \<Rightarrow>
          (if state \<inter> {PRESENT, AVAILABLE} = {AVAILABLE} then
             (case source of
                None \<Rightarrow> (db1, Inl (IntegrityError ''node_from''))
              | Some src \<Rightarrow>
                  (case get_or_create db1 (recall_request m file src) of
                     (db2, created) \<Rightarrow>
                       (db2, Inr (if created then insert RECALLED state else state))))
           else (db1, Inr state)))"

fun reserve_loop ::
  "file_manager \<Rightarrow> bool \<Rightarrow> archive_file list \<Rightarrow> database \<Rightarrow> bool \<Rightarrow> states
     \<Rightarrow> database \<times> (error + bool \<times> states)"
where
  "reserve_loop m check_only [] db result sts = (db, Inr (result, sts))"
| "reserve_loop m check_only (file # files) db result sts =
     (case filecopy_state m db file of
        (state, source) \<Rightarrow>
          (let result' = (if result \<and> PRESENT \<notin> state then False else result)
           in if \<not> check_only then
                (case reserve_writes m file state source db of
                   (db', Inl e) \<Rightarrow> (db', Inl e)
                 | (db', Inr state') \<Rightarrow>
                     reserve_loop m check_only files db' result' (dict_set sts file state'))
              else reserve_loop m check_only files db result' (dict_set sts file state)))"

text \<open>
  \<^verbatim>\<open>reserve\<close> gives the database after the call and either the exception raised or
  the boolean returned, with the \<^verbatim>\<open>states\<close> the verbose report is printed from. The
  printing itself writes nothing and returns nothing, and is left out.
\<close>

definition reserve ::
  "file_manager \<Rightarrow> files_arg \<Rightarrow> bool \<Rightarrow> database \<Rightarrow> database \<times> (error + bool \<times> states)"
where
  "reserve m files check_only db =
     (case fixup_filespec m db files of
        Inl e \<Rightarrow> (db, Inl e)
      | Inr fs \<Rightarrow> reserve_loop m check_only fs db True [])"

text \<open>What the caller of \<^verbatim>\<open>reserve\<close> gets: the exception, or the boolean.\<close>

definition returned :: "database \<times> (error + bool \<times> states) \<Rightarrow> error + bool" where
  "returned r = map_sum id fst (snd r)"

definition is_reserved ::
  "file_manager \<Rightarrow> files_arg \<Rightarrow> database \<Rightarrow> database \<times> (error + bool \<times> states)"
where
  "is_reserved m file db = reserve m file True db"

subsection \<open>The ledger's query\<close>

text \<open>
  \<^verbatim>\<open>FileReservation.reserved_in_node(self, file, node)\<close> selects the tags of the rows with
  \<^verbatim>\<open>FileReservation.file == file\<close> and \<^verbatim>\<open>FileReservation.node == StorageNode\<close>: the second
  condition compares the node column with the model class \<^verbatim>\<open>StorageNode\<close>, not with
  the argument \<^verbatim>\<open>node\<close>. What the database makes of a key compared with a table is
  taken as the parameter \<open>eq_StorageNode\<close>; the argument \<open>node\<close> is not used.
\<close>

definition reserved_in_node ::
  "(nat \<Rightarrow> bool) \<Rightarrow> database \<Rightarrow> archive_file \<Rightarrow> storage_node \<Rightarrow> nat list"
where
  "reserved_in_node eq_StorageNode db file node =
     [res_tag rec. rec \<leftarrow> reservation_table db,
                   res_file rec = file_id file \<and> eq_StorageNode (res_node rec)]"

section \<open>The test fixture\<close>

text \<open>The rows \<^verbatim>\<open>tests/conftest.py\<close> creates, with the keys the database gives them in
  order of creation, and the manager \<^verbatim>\<open>CedarManager(tag1)\<close> builds on them.\<close>

definition cedar_online :: storage_node where
  "cedar_online = \<lparr>node_id = 1, node_name = ''cedar_online'', node_group = 1, node_root = ''/test''\<rparr>"

definition src1 :: storage_node where
  "src1 = \<lparr>node_id = 2, node_name = ''src1'', node_group = 2, node_root = ''/src1''\<rparr>"

definition src2 :: storage_node where
  "src2 = \<lparr>node_id = 3, node_name = ''src2'', node_group = 2, node_root = ''/src2''\<rparr>"

definition src3 :: storage_node where
  "src3 = \<lparr>node_id = 4, node_name = ''src3'', node_group = 2, node_root = ''/src3''\<rparr>"

definition tag1 :: file_reservation_tag where
  "tag1 = \<lparr>tag_id = 1, tag_name = ''tag1''\<rparr>"

definition tag2 :: file_reservation_tag where
  "tag2 = \<lparr>tag_id = 2, tag_name = ''tag2''\<rparr>"

definition file0 :: archive_file where
  "file0 = \<lparr>file_id = 1, file_acq = 1, file_name = ''file0'', size_b = 123456789\<rparr>"

definition file1 :: archive_file where
  "file1 = \<lparr>file_id = 2, file_acq = 1, file_name = ''file1'', size_b = 123456789\<rparr>"

definition file2 :: archive_file where
  "file2 = \<lparr>file_id = 3, file_acq = 1, file_name = ''file2'', size_b = 123456789\<rparr>"

definition file3 :: archive_file where
  "file3 = \<lparr>file_id = 4, file_acq = 1, file_name = ''file3'', size_b = 123456789\<rparr>"

definition file4 :: archive_file where
  "file4 = \<lparr>file_id = 5, file_acq = 1, file_name = ''file4'', size_b = 123456789\<rparr>"

definition copy_of :: "archive_file \<Rightarrow> storage_node \<Rightarrow> archive_file_copy" where
  "copy_of file node = \<lparr>copy_file = file_id file, copy_node = node_id node, has_file = ''Y''\<rparr>"

definition test_data :: database where
  "test_data =
     \<lparr>node_table = [cedar_online, src1, src2, src3],
      acq_table = [\<lparr>acq_id = 1, acq_name = ''acqpath''\<rparr>],
      file_table = [file0, file1, file2, file3, file4],
      copy_table = [copy_of file0 cedar_online,
                    copy_of file1 cedar_online, copy_of file1 src1,
                    copy_of file2 src1,
                    copy_of file3 src1, copy_of file3 src2, copy_of file3 src3],
      request_table = [],
      reservation_table = []\<rparr>"

definition cedar :: file_manager where
  "cedar = use_tag (add_source (init cedar_online) test_data (Group 2)) tag1"

text \<open>The fixture with \<open>file0\<close> reserved on \<open>cedar_online\<close> under both tags.\<close>

definition test_data_reserved :: database where
  "test_data_reserved =
     test_data\<lparr>reservation_table :=
       [\<lparr>res_file = 1, res_node = 1, res_tag = 1\<rparr>, \<lparr>res_file = 1, res_node = 1, res_tag = 2\<rparr>]\<rparr>"

section \<open>What the database says about a file\<close>

text \<open>PRESENT: a copy row of the file on the destination node with \<^verbatim>\<open>has_file\<close> \<open>Y\<close>.\<close>

definition on_node :: "file_manager \<Rightarrow> database \<Rightarrow> archive_file \<Rightarrow> bool" where
  "on_node m db f \<longleftrightarrow>
     (\<exists>c\<in>set (copy_table db). copy_on (file_id f) [node_id (m_node m)] c)"

text \<open>AVAILABLE: such a row on one of the source nodes.\<close>

definition on_source :: "file_manager \<Rightarrow> database \<Rightarrow> archive_file \<Rightarrow> bool" where
  "on_source m db f \<longleftrightarrow>
     (\<exists>c\<in>set (copy_table db). copy_on (file_id f) (map node_id (m_sources m)) c)"

text \<open>RESERVED: a reservation row of the file on the destination node under the tag in use.\<close>

definition has_reservation :: "file_manager \<Rightarrow> database \<Rightarrow> archive_file \<Rightarrow> bool" where
  "has_reservation m db f \<longleftrightarrow>
     (\<exists>t. m_tag m = Some t \<and>
        (\<exists>r\<in>set (reservation_table db).
           reserved_by (file_id f) (tag_id t) (node_id (m_node m)) r))"

text \<open>The rows one pass of the loop of \<^verbatim>\<open>reserve\<close> adds for a file, and the database after
  one file and after a list of files.\<close>

definition new_reservations ::
  "file_manager \<Rightarrow> database \<Rightarrow> archive_file \<Rightarrow> file_reservation list"
where
  "new_reservations m db f =
     (case m_tag m of
        None \<Rightarrow> []
      | Some t \<Rightarrow>
          if has_reservation m db f then []
          else [\<lparr>res_file = file_id f, res_node = node_id (m_node m), res_tag = tag_id t\<rparr>])"

definition new_requests ::
  "file_manager \<Rightarrow> database \<Rightarrow> archive_file \<Rightarrow> archive_file_copy_request list"
where
  "new_requests m db f =
     (if on_node m db f then []
      else (case find (copy_on (file_id f) (map node_id (m_sources m))) (copy_table db) of
              None \<Rightarrow> []
            | Some c \<Rightarrow>
                if recall_request m f (copy_node c) \<in> set (request_table db) then []
                else [recall_request m f (copy_node c)]))"

definition after_file :: "file_manager \<Rightarrow> archive_file \<Rightarrow> database \<Rightarrow> database" where
  "after_file m f db =
     db\<lparr>request_table := request_table db @ new_requests m db f,
        reservation_table := reservation_table db @ new_reservations m db f\<rparr>"

definition after_files :: "file_manager \<Rightarrow> archive_file list \<Rightarrow> database \<Rightarrow> database" where
  "after_files m fs db = fold (after_file m) fs db"

definition settled :: "file_manager \<Rightarrow> database \<Rightarrow> archive_file \<Rightarrow> bool" where
  "settled m db f \<longleftrightarrow> new_reservations m db f = [] \<and> new_requests m db f = []"

text \<open>The reservation rows of a file on the manager's node under one of the tags.\<close>

definition reserving ::
  "file_manager \<Rightarrow> file_reservation_tag list \<Rightarrow> archive_file \<Rightarrow> file_reservation \<Rightarrow> bool"
where
  "reserving m ts f r \<longleftrightarrow>
     res_file r = file_id f \<and> res_node r = node_id (m_node m) \<and> res_tag r \<in> set (map tag_id ts)"

section \<open>Lemmas about the state of a file and the loop\<close>

lemma case_find:
  "(case find P xs of None \<Rightarrow> a | Some _ \<Rightarrow> b) = (if \<exists>x\<in>set xs. P x then b else a)"
  by (induction xs) auto

lemma filecopy_state_eq:
  "filecopy_state m db f =
     ((if on_node m db f then {PRESENT} else {}) \<union>
      (if on_source m db f then {AVAILABLE} else {}) \<union>
      (if has_reservation m db f then {RESERVED} else {}),
      map_option copy_node (find (copy_on (file_id f) (map node_id (m_sources m))) (copy_table db)))"
proof -
  have src: "(case find (copy_on (file_id f) (map node_id (m_sources m))) (copy_table db) of
                Some copy \<Rightarrow> (insert AVAILABLE s, Some (copy_node copy))
              | None \<Rightarrow> (s, None)) =
             ((if on_source m db f then insert AVAILABLE s else s),
              map_option copy_node (find (copy_on (file_id f) (map node_id (m_sources m))) (copy_table db)))"
    for s :: copy_state
    by (auto simp: on_source_def find_None_iff split: option.splits dest: find_Some_iff[THEN iffD1])
  show ?thesis
    unfolding filecopy_state_def Let_def case_find src
    by (cases "m_tag m") (auto simp: on_node_def has_reservation_def case_find)
qed

lemma get_or_create_eq:
  "get_or_create db req =
     (if req \<in> set (request_table db) then (db, False)
      else (db\<lparr>request_table := request_table db @ [req]\<rparr>, True))"
  unfolding get_or_create_def case_find by auto

lemma on_source_find:
  "on_source m db f \<longleftrightarrow> find (copy_on (file_id f) (map node_id (m_sources m))) (copy_table db) \<noteq> None"
  by (auto simp: on_source_def find_None_iff)

lemma reserve_writes_tagged:
  assumes "m_tag m = Some t" and "filecopy_state m db f = (state, source)"
  shows "reserve_writes m f state source db =
           (after_file m f db, Inr (if new_requests m db f = [] then state else insert RECALLED state))"
proof -
  from assms(2) have st: "state = (if on_node m db f then {PRESENT} else {}) \<union>
      (if on_source m db f then {AVAILABLE} else {}) \<union>
      (if has_reservation m db f then {RESERVED} else {})"
    and src: "source = map_option copy_node (find (copy_on (file_id f) (map node_id (m_sources m))) (copy_table db))"
    by (simp_all add: filecopy_state_eq)
  have r: "RESERVED \<in> state \<longleftrightarrow> has_reservation m db f"
    and c: "state \<inter> {PRESENT, AVAILABLE} = {AVAILABLE} \<longleftrightarrow> on_source m db f \<and> \<not> on_node m db f"
    by (auto simp: st)
  show ?thesis
    unfolding reserve_writes_def r c
    by (cases "find (copy_on (file_id f) (map node_id (m_sources m))) (copy_table db)")
       (auto simp: create_reservation_def assms(1) src on_source_find get_or_create_eq
          after_file_def new_requests_def new_reservations_def)
qed

lemma reserve_writes_untagged:
  assumes "m_tag m = None" and "filecopy_state m db f = (state, source)"
  shows "reserve_writes m f state source db = (db, Inl (IntegrityError ''tag''))"
proof -
  from assms have "RESERVED \<notin> state"
    by (auto simp: filecopy_state_eq has_reservation_def split: if_splits)
  then show ?thesis
    by (simp add: reserve_writes_def create_reservation_def assms(1))
qed

lemma after_file_copy_table [simp]: "copy_table (after_file m f db) = copy_table db"
  by (simp add: after_file_def)

lemma on_node_after_file [simp]: "on_node m (after_file m g db) f = on_node m db f"
  by (simp add: on_node_def)

lemma on_source_after_file [simp]: "on_source m (after_file m g db) f = on_source m db f"
  by (simp add: on_source_def)

lemma on_node_after_files [simp]: "on_node m (after_files m fs db) f = on_node m db f"
  unfolding after_files_def by (induction fs arbitrary: db) simp_all

lemma dict_set_keys:
  "file_id ` fst ` set (dict_set sts f st) = insert (file_id f) (file_id ` fst ` set sts)"
  by (induction sts f st rule: dict_set.induct) auto

lemma reserve_loop_tagged:
  assumes "m_tag m = Some t"
  shows "\<exists>sts'. reserve_loop m False fs db result sts =
           (after_files m fs db, Inr (result \<and> (\<forall>f\<in>set fs. on_node m db f), sts'))
         \<and> file_id ` fst ` set sts' = file_id ` fst ` set sts \<union> file_id ` set fs"
proof (induction fs arbitrary: db result sts)
  case Nil
  show ?case by (simp add: after_files_def)
next
  case (Cons f fs)
  obtain state source where fc: "filecopy_state m db f = (state, source)"
    by (cases "filecopy_state m db f")
  then have p: "PRESENT \<in> state \<longleftrightarrow> on_node m db f"
    by (auto simp: filecopy_state_eq split: if_splits)
  let ?st = "if new_requests m db f = [] then state else insert RECALLED state"
  let ?res = "if result \<and> PRESENT \<notin> state then False else result"
  from Cons.IH [of "after_file m f db" ?res "dict_set sts f ?st"]
  obtain sts' where
    run: "reserve_loop m False fs (after_file m f db) ?res (dict_set sts f ?st) =
            (after_files m fs (after_file m f db),
             Inr (?res \<and> (\<forall>g\<in>set fs. on_node m (after_file m f db) g), sts'))"
    and keys: "file_id ` fst ` set sts' = file_id ` fst ` set (dict_set sts f ?st) \<union> file_id ` set fs"
    by blast
  have "reserve_loop m False (f # fs) db result sts =
          (after_files m (f # fs) db, Inr (result \<and> (\<forall>g\<in>set (f # fs). on_node m db g), sts'))"
    using run p by (auto simp: fc reserve_writes_tagged [OF assms fc] after_files_def)
  moreover have "file_id ` fst ` set (dict_set sts f ?st) = insert (file_id f) (file_id ` fst ` set sts)"
    by (rule dict_set_keys)
  ultimately show ?case using keys by auto
qed

lemma reserve_loop_check_only:
  "\<exists>sts'. reserve_loop m True fs db result sts =
           (db, Inr (result \<and> (\<forall>f\<in>set fs. on_node m db f), sts'))
         \<and> file_id ` fst ` set sts' = file_id ` fst ` set sts \<union> file_id ` set fs"
proof (induction fs arbitrary: result sts)
  case Nil
  show ?case by simp
next
  case (Cons f fs)
  obtain state source where fc: "filecopy_state m db f = (state, source)"
    by (cases "filecopy_state m db f")
  then have p: "PRESENT \<in> state \<longleftrightarrow> on_node m db f"
    by (auto simp: filecopy_state_eq split: if_splits)
  let ?res = "if result \<and> PRESENT \<notin> state then False else result"
  from Cons.IH [of ?res "dict_set sts f state"]
  obtain sts' where
    run: "reserve_loop m True fs db ?res (dict_set sts f state) =
            (db, Inr (?res \<and> (\<forall>g\<in>set fs. on_node m db g), sts'))"
    and keys: "file_id ` fst ` set sts' = file_id ` fst ` set (dict_set sts f state) \<union> file_id ` set fs"
    by blast
  have step: "reserve_loop m True (f # fs) db result sts =
          reserve_loop m True fs db ?res (dict_set sts f state)"
    by (simp add: fc)
  have res: "(?res \<and> (\<forall>g\<in>set fs. on_node m db g)) =
          (result \<and> (\<forall>g\<in>set (f # fs). on_node m db g))"
    using p by auto
  have "reserve_loop m True (f # fs) db result sts =
          (db, Inr (result \<and> (\<forall>g\<in>set (f # fs). on_node m db g), sts'))"
    unfolding step run res ..
  moreover have "file_id ` fst ` set sts' = file_id ` fst ` set sts \<union> file_id ` set (f # fs)"
    unfolding keys dict_set_keys by auto
  ultimately show ?case by blast
qed

lemma reserve_loop_untagged:
  assumes "m_tag m = None"
  shows "reserve_loop m False (f # fs) db result sts = (db, Inl (IntegrityError ''tag''))"
proof -
  obtain state source where fc: "filecopy_state m db f = (state, source)"
    by (cases "filecopy_state m db f")
  show ?thesis
    by (simp add: fc reserve_writes_untagged [OF assms fc])
qed

lemma lookup_file_cong:
  "acq_table db' = acq_table db \<Longrightarrow> file_table db' = file_table db \<Longrightarrow>
     lookup_file db' t = lookup_file db t"
  by (simp add: lookup_file_def cong: list.case_cong)

lemma fixup_one_cong:
  "acq_table db' = acq_table db \<Longrightarrow> file_table db' = file_table db \<Longrightarrow>
     fixup_one m db' spec = fixup_one m db spec"
  by (cases spec) (simp_all add: lookup_file_cong [of db' db] split: sum.splits)

lemma fixup_loop_cong:
  "acq_table db' = acq_table db \<Longrightarrow> file_table db' = file_table db \<Longrightarrow>
     fixup_loop m db' specs out = fixup_loop m db specs out"
  by (induction specs arbitrary: out) (simp_all add: fixup_one_cong [of db' db] split: sum.splits)

lemma fixup_filespec_cong:
  "acq_table db' = acq_table db \<Longrightarrow> file_table db' = file_table db \<Longrightarrow>
     fixup_filespec m db' files = fixup_filespec m db files"
  by (simp add: fixup_filespec_def fixup_loop_cong [of db' db])

lemma after_files_tables [simp]:
  "acq_table (after_files m fs db) = acq_table db"
  "file_table (after_files m fs db) = file_table db"
  "copy_table (after_files m fs db) = copy_table db"
  unfolding after_files_def by (induction fs arbitrary: db; simp add: after_file_def)+

lemma has_reservation_after_file:
  "m_tag m = Some t \<Longrightarrow>
     has_reservation m (after_file m g db) f \<longleftrightarrow> has_reservation m db f \<or> file_id f = file_id g"
  by (auto simp: has_reservation_def after_file_def new_reservations_def reserved_by_def)

lemma new_requests_after_file:
  "new_requests m (after_file m g db) f =
     (if file_id f = file_id g then [] else new_requests m db f)"
  by (auto simp: new_requests_def after_file_def on_node_def copy_on_def recall_request_def
        split: option.splits)

lemma settled_after_file:
  "m_tag m = Some t \<Longrightarrow> settled m (after_file m g db) f \<longleftrightarrow> settled m db f \<or> file_id f = file_id g"
  using has_reservation_after_file [of m t g db f]
  by (auto simp: settled_def new_requests_after_file new_reservations_def)

lemma after_files_Cons: "after_files m (f # fs) db = after_files m fs (after_file m f db)"
  by (simp add: after_files_def)

lemma after_files_Nil: "after_files m [] db = db"
  by (simp add: after_files_def)

lemma settled_after_files:
  "m_tag m = Some t \<Longrightarrow>
     settled m (after_files m fs db) f \<longleftrightarrow> settled m db f \<or> file_id f \<in> file_id ` set fs"
proof (induction fs arbitrary: db)
  case Nil
  show ?case by (simp add: after_files_Nil)
next
  case (Cons g fs)
  show ?case
    unfolding after_files_Cons Cons.IH [OF Cons.prems] settled_after_file [OF Cons.prems]
    by auto
qed

lemma after_file_settled: "settled m db f \<Longrightarrow> after_file m f db = db"
  by (simp add: settled_def after_file_def)

lemma after_files_settled: "\<forall>f\<in>set fs. settled m db f \<Longrightarrow> after_files m fs db = db"
  by (induction fs) (simp_all add: after_files_Nil after_files_Cons after_file_settled)

lemma after_files_idem:
  "m_tag m = Some t \<Longrightarrow> after_files m fs (after_files m fs db) = after_files m fs db"
  by (rule after_files_settled) (simp add: settled_after_files)

lemma has_reservation_after_files:
  "m_tag m = Some t \<Longrightarrow>
     has_reservation m (after_files m fs db) f \<longleftrightarrow>
       has_reservation m db f \<or> file_id f \<in> file_id ` set fs"
proof (induction fs arbitrary: db)
  case Nil
  show ?case by (simp add: after_files_Nil)
next
  case (Cons g fs)
  show ?case
    unfolding after_files_Cons Cons.IH [OF Cons.prems] has_reservation_after_file [OF Cons.prems]
    by auto
qed

lemma new_reservations_file:
  "r \<in> set (new_reservations m db g) \<Longrightarrow> res_file r = file_id g"
  by (auto simp: new_reservations_def split: option.splits if_splits)

lemma new_requests_file:
  "q \<in> set (new_requests m db g) \<Longrightarrow> req_file q = file_id g"
  by (auto simp: new_requests_def recall_request_def split: option.splits if_splits)

lemma filter_none: "(\<And>x. x \<in> set xs \<Longrightarrow> \<not> P x) \<Longrightarrow> filter P xs = []"
  by (induction xs) auto

lemma filter_all: "(\<And>x. x \<in> set xs \<Longrightarrow> P x) \<Longrightarrow> filter P xs = xs"
  by (induction xs) auto

lemma new_reservations_id:
  "file_id g = file_id f \<Longrightarrow> new_reservations m db g = new_reservations m db f"
  by (simp add: new_reservations_def has_reservation_def split: option.splits)

lemma new_requests_id:
  "file_id g = file_id f \<Longrightarrow> new_requests m db g = new_requests m db f"
  by (simp add: new_requests_def on_node_def recall_request_def split: option.splits)

lemma reservations_of_after_file:
  "filter (\<lambda>r. res_file r = file_id f) (reservation_table (after_file m g db)) =
     filter (\<lambda>r. res_file r = file_id f) (reservation_table db) @
       (if file_id g = file_id f then new_reservations m db f else [])"
proof (cases "file_id g = file_id f")
  case True
  have "filter (\<lambda>r. res_file r = file_id f) (new_reservations m db f) = new_reservations m db f"
    by (rule filter_all) (rule new_reservations_file)
  with True show ?thesis
    by (simp add: after_file_def new_reservations_id [OF True])
next
  case False
  have "filter (\<lambda>r. res_file r = file_id f) (new_reservations m db g) = []"
    by (rule filter_none) (use False new_reservations_file in fastforce)
  with False show ?thesis
    by (simp add: after_file_def)
qed

lemma requests_of_after_file:
  "filter (\<lambda>q. req_file q = file_id f) (request_table (after_file m g db)) =
     filter (\<lambda>q. req_file q = file_id f) (request_table db) @
       (if file_id g = file_id f then new_requests m db f else [])"
proof (cases "file_id g = file_id f")
  case True
  have "filter (\<lambda>q. req_file q = file_id f) (new_requests m db f) = new_requests m db f"
    by (rule filter_all) (rule new_requests_file)
  with True show ?thesis
    by (simp add: after_file_def new_requests_id [OF True])
next
  case False
  have "filter (\<lambda>q. req_file q = file_id f) (new_requests m db g) = []"
    by (rule filter_none) (use False new_requests_file in fastforce)
  with False show ?thesis
    by (simp add: after_file_def)
qed

lemma new_reservations_after_file:
  "m_tag m = Some t \<Longrightarrow>
     new_reservations m (after_file m g db) f =
       (if file_id f = file_id g then [] else new_reservations m db f)"
  using has_reservation_after_file [of m t g db f]
  by (auto simp: new_reservations_def)

lemma reservations_of_after_files:
  "m_tag m = Some t \<Longrightarrow>
   filter (\<lambda>r. res_file r = file_id f) (reservation_table (after_files m fs db)) =
     filter (\<lambda>r. res_file r = file_id f) (reservation_table db) @
       (if file_id f \<in> file_id ` set fs then new_reservations m db f else [])"
proof (induction fs arbitrary: db)
  case Nil
  show ?case by (simp add: after_files_Nil)
next
  case (Cons g fs)
  show ?case
    unfolding after_files_Cons Cons.IH [OF Cons.prems] reservations_of_after_file
      new_reservations_after_file [OF Cons.prems]
    by auto
qed

lemma requests_of_after_files:
  "filter (\<lambda>q. req_file q = file_id f) (request_table (after_files m fs db)) =
     filter (\<lambda>q. req_file q = file_id f) (request_table db) @
       (if file_id f \<in> file_id ` set fs then new_requests m db f else [])"
proof (induction fs arbitrary: db)
  case Nil
  show ?case by (simp add: after_files_Nil)
next
  case (Cons g fs)
  show ?case
    unfolding after_files_Cons Cons.IH requests_of_after_file new_requests_after_file
    by auto
qed

section \<open>Lemmas about the normalization and about reserve\<close>

lemmas fixture_defs =
  cedar_def test_data_def test_data_reserved_def cedar_online_def src1_def src2_def src3_def
  tag1_def tag2_def file0_def file1_def file2_def file3_def file4_def copy_of_def
  init_def use_tag_def add_source_def

lemma cedar_eq:
  "cedar = \<lparr>m_node = cedar_online, m_sources = [src1, src2, src3], m_tag = Some tag1\<rparr>"
  by (simp add: fixture_defs)

lemma relative_path_fails:
  assumes "is_absolute (Path (node_root (m_node m)))" and "\<not> is_absolute p"
  shows "path_to_tuple m p = Inl (ValueError (NotInSubpath p (Path (node_root (m_node m)))))"
proof -
  obtain r rs where root: "Path (node_root (m_node m)) = r # rs" and r: "take 1 r = ''/''"
    using assms(1) by (auto simp: is_absolute_def split: list.splits)
  have "take (length (r # rs)) p \<noteq> r # rs"
    using assms(2) r by (cases p) (auto simp: is_absolute_def)
  then show ?thesis
    by (simp add: path_to_tuple_def relative_to_def root)
qed

lemma reserve_check_only:
  "\<exists>sts. reserve m files True db =
     (db, case fixup_filespec m db files of
            Inl e \<Rightarrow> Inl e
          | Inr fs \<Rightarrow> Inr (\<forall>f\<in>set fs. on_node m db f, sts))"
proof (cases "fixup_filespec m db files")
  case (Inl e)
  then show ?thesis by (simp add: reserve_def)
next
  case (Inr fs)
  from reserve_loop_check_only [of m fs db True "[]"]
  obtain sts where "reserve_loop m True fs db True [] = (db, Inr (\<forall>f\<in>set fs. on_node m db f, sts))"
    by auto
  then show ?thesis by (simp add: reserve_def Inr)
qed

lemma returned_check_only:
  "returned (reserve m files True db) =
     map_sum id (\<lambda>fs. \<forall>f\<in>set fs. on_node m db f) (fixup_filespec m db files)"
  using reserve_check_only [of m files db]
  by (cases "fixup_filespec m db files") (auto simp: returned_def)

lemma fst_check_only: "fst (reserve m files True db) = db"
  using reserve_check_only [of m files db] by auto

lemma reserve_tagged:
  assumes "m_tag m = Some t"
  shows "\<exists>sts. reserve m files False db =
     (case fixup_filespec m db files of
        Inl e \<Rightarrow> (db, Inl e)
      | Inr fs \<Rightarrow> (after_files m fs db, Inr (\<forall>f\<in>set fs. on_node m db f, sts)))"
proof (cases "fixup_filespec m db files")
  case (Inl e)
  then show ?thesis by (simp add: reserve_def)
next
  case (Inr fs)
  from reserve_loop_tagged [OF assms, of fs db True "[]"]
  obtain sts where "reserve_loop m False fs db True [] =
      (after_files m fs db, Inr (\<forall>f\<in>set fs. on_node m db f, sts))"
    by auto
  then show ?thesis by (simp add: reserve_def Inr)
qed

lemma returned_tagged:
  assumes "m_tag m = Some t"
  shows "returned (reserve m files False db) =
     map_sum id (\<lambda>fs. \<forall>f\<in>set fs. on_node m db f) (fixup_filespec m db files)"
  using reserve_tagged [OF assms, of files db]
  by (cases "fixup_filespec m db files") (auto simp: returned_def)

lemma reserve_untagged:
  assumes "m_tag m = None"
  shows "reserve m files False db =
     (db, case fixup_filespec m db files of
            Inl e \<Rightarrow> Inl e
          | Inr [] \<Rightarrow> Inr (True, [])
          | Inr (f # fs) \<Rightarrow> Inl (IntegrityError ''tag''))"
proof (cases "fixup_filespec m db files")
  case (Inl e)
  then show ?thesis by (simp add: reserve_def)
next
  case (Inr fs)
  then show ?thesis
    by (cases fs) (simp_all add: reserve_def reserve_loop_untagged [OF assms] del: reserve_loop.simps(2))
qed

lemma returned_untagged:
  assumes "m_tag m = None"
  shows "returned (reserve m files False db) =
           (case fixup_filespec m db files of
              Inl e \<Rightarrow> Inl e
            | Inr [] \<Rightarrow> Inr True
            | Inr (f # fs) \<Rightarrow> Inl (IntegrityError ''tag''))"
  by (simp add: reserve_untagged [OF assms] returned_def split: sum.splits list.splits)

lemma cedar_tag: "m_tag cedar = Some tag1"
  by (simp add: cedar_eq)

lemma new_reservations_Nil:
  "m_tag m = Some t \<Longrightarrow> new_reservations m db f = [] \<longleftrightarrow> has_reservation m db f"
  by (simp add: new_reservations_def)

lemma fixture_specs:
  "fixup_filespec cedar test_data (Many [FFile file2, FFile file0]) = Inr [file2, file0]"
  by (simp add: fixup_filespec_def)

lemma fixture_on_node:
  "on_node cedar test_data file0" "\<not> on_node cedar test_data file2"
  by (simp_all add: on_node_def copy_on_def cedar_eq test_data_def cedar_online_def
        src1_def src2_def src3_def file0_def file1_def file2_def file3_def copy_of_def)

lemma fixup_filespec_One:
  "fixup_filespec m db (One spec) = map_sum id (\<lambda>f. [f]) (fixup_one m db spec)"
  by (simp add: fixup_filespec_def split: sum.splits)

lemma join_rows:
  "concat (map (\<lambda>r. if A r then (if B r then [f] else []) else []) rs) =
     replicate (length (filter (\<lambda>r. A r \<and> B r) rs)) f"
  by (induction rs) auto

lemma count_list_replicate_eq: "count_list (replicate k y) x = (if y = x then k else 0)"
  by (induction k) auto

lemma count_list_distinct: "distinct xs \<Longrightarrow> count_list xs x = (if x \<in> set xs then 1 else 0)"
  by (induction xs) auto

lemma count_list_rows:
  "count_list (concat (map (\<lambda>f. replicate (n f) f) xs)) x = count_list xs x * n x"
  by (induction xs) (auto simp: count_list_replicate_eq)

lemma set_rows:
  "set (concat (map (\<lambda>f. replicate (n f) f) xs)) = {f \<in> set xs. 0 < n f}"
  by (induction xs) auto

lemma all_reserved_files_eq:
  assumes "autotags m tags = Inr ts"
  shows "all_reserved_files m db tags =
           Inr (concat (map (\<lambda>f. replicate (length (filter (reserving m ts f) (reservation_table db))) f)
                            (file_table db)))"
proof -
  have "(\<lambda>r. res_file r = file_id f \<and> res_node r = node_id (m_node m) \<and> res_tag r \<in> set (map tag_id ts))
          = reserving m ts f" for f
    by (auto simp: reserving_def)
  then show ?thesis
    by (simp add: all_reserved_files_def assms join_rows)
qed

lemma fixture_file2:
  "fixup_filespec cedar test_data (One (FFile file2)) = Inr [file2]"
  "on_source cedar test_data file2"
  "\<forall>c\<in>set (copy_table test_data).
     copy_on (file_id file2) (map node_id (m_sources cedar)) c \<longrightarrow> copy_node c = 2"
  "\<not> has_reservation cedar test_data file2"
  "recall_request cedar file2 2 \<notin> set (request_table test_data)"
  by (simp_all add: fixup_filespec_def on_source_def has_reservation_def copy_on_def
        cedar_eq test_data_def cedar_online_def
        src1_def src2_def src3_def file0_def file1_def file2_def file3_def copy_of_def)

section \<open>The claims\<close>

text \<open>
  Claim C1. For a list of file specifications that all resolve, \<^verbatim>\<open>reserve\<close> (check-only, or
  with a tag in use) returns true exactly when every file of the list has a copy row with
  \<^verbatim>\<open>has_file\<close> \<open>Y\<close> on the destination node. One absent file makes the result false
  and nothing after it makes it true again; the loop still runs over every file: each has
  its entry in \<^verbatim>\<open>states\<close>, and when the call is not check-only each is reserved afterwards
  and has no recall left to request.
\<close>

theorem reserve_true_iff_all_present:
  assumes "fixup_filespec m db files = Inr fs" and "check_only \<or> m_tag m \<noteq> None"
  shows "\<exists>db' sts.
           reserve m files check_only db = (db', Inr (\<forall>f\<in>set fs. on_node m db f, sts))
         \<and> file_id ` fst ` set sts = file_id ` set fs
         \<and> (\<not> check_only \<longrightarrow> (\<forall>f\<in>set fs. has_reservation m db' f \<and> new_requests m db' f = []))"
proof (cases check_only)
  case True
  from reserve_loop_check_only [of m fs db True "[]"]
  obtain sts where "reserve_loop m True fs db True [] = (db, Inr (\<forall>f\<in>set fs. on_node m db f, sts))"
    and "file_id ` fst ` set sts = file_id ` set fs"
    by auto
  then show ?thesis by (simp add: reserve_def assms(1) True)
next
  case False
  with assms(2) obtain t where t: "m_tag m = Some t" by auto
  from reserve_loop_tagged [OF t, of fs db True "[]"]
  obtain sts where run: "reserve_loop m False fs db True [] =
        (after_files m fs db, Inr (\<forall>f\<in>set fs. on_node m db f, sts))"
    and keys: "file_id ` fst ` set sts = file_id ` set fs"
    by auto
  have "settled m (after_files m fs db) f" if "f \<in> set fs" for f
    using that by (simp add: settled_after_files [OF t])
  then have "\<forall>f\<in>set fs. has_reservation m (after_files m fs db) f
                \<and> new_requests m (after_files m fs db) f = []"
    by (simp add: settled_def new_reservations_Nil [OF t])
  with run keys show ?thesis
    by (simp add: reserve_def assms(1) False)
qed

theorem reserve_true_iff_all_present_witness:
  "fixup_filespec cedar test_data (Many [FFile file2, FFile file0]) = Inr [file2, file0]
   \<and> (False \<or> m_tag cedar \<noteq> None)
   \<and> (\<exists>db' sts.
         reserve cedar (Many [FFile file2, FFile file0]) False test_data = (db', Inr (False, sts))
       \<and> file_id ` fst ` set sts = file_id ` set [file2, file0]
       \<and> has_reservation cedar db' file0 \<and> has_reservation cedar db' file2)"
proof -
  have tag: "False \<or> m_tag cedar \<noteq> None"
    by (simp add: cedar_tag)
  from reserve_true_iff_all_present [OF fixture_specs tag]
  have "\<exists>db' sts.
         reserve cedar (Many [FFile file2, FFile file0]) False test_data = (db', Inr (False, sts))
       \<and> file_id ` fst ` set sts = file_id ` set [file2, file0]
       \<and> has_reservation cedar db' file0 \<and> has_reservation cedar db' file2"
    using fixture_on_node by auto
  with fixture_specs tag show ?thesis by blast
qed

text \<open>
  Claim C2. For every manager, database and argument, \<^verbatim>\<open>reserve\<close> with
  \<^verbatim>\<open>check_only=True\<close> leaves the whole database as it was, so it creates no reservation
  and no transfer request; it returns whether all the files are on the destination node (or
  raises what the normalization raises); and the call that is not check-only returns the
  same, the one exception being a manager with no tag in use, where that call raises on
  the first insert and returns no boolean at all.
\<close>

theorem check_only_writes_nothing:
  "fst (reserve m files True db) = db
   \<and> returned (reserve m files True db) =
       map_sum id (\<lambda>fs. \<forall>f\<in>set fs. on_node m db f) (fixup_filespec m db files)
   \<and> (returned (reserve m files False db) = returned (reserve m files True db)
      \<or> m_tag m = None \<and> returned (reserve m files False db) = Inl (IntegrityError ''tag''))"
proof (intro conjI)
  show "fst (reserve m files True db) = db" by (rule fst_check_only)
  show "returned (reserve m files True db) =
       map_sum id (\<lambda>fs. \<forall>f\<in>set fs. on_node m db f) (fixup_filespec m db files)"
    by (rule returned_check_only)
  show "returned (reserve m files False db) = returned (reserve m files True db)
      \<or> m_tag m = None \<and> returned (reserve m files False db) = Inl (IntegrityError ''tag'')"
  proof (cases "m_tag m")
    case (Some t)
    then show ?thesis by (simp add: returned_tagged returned_check_only)
  next
    case None
    show ?thesis
    proof (cases "fixup_filespec m db files")
      case (Inl e)
      then show ?thesis
        by (simp add: returned_check_only returned_untagged [OF None])
    next
      case (Inr fs)
      then show ?thesis
        by (cases fs) (simp_all add: returned_check_only returned_untagged [OF None] None)
    qed
  qed
qed

theorem check_only_writes_nothing_witness:
  "fst (reserve cedar (Many [FFile file2, FFile file0]) True test_data) = test_data
   \<and> returned (reserve cedar (Many [FFile file2, FFile file0]) True test_data) = Inr False
   \<and> returned (reserve cedar (Many [FFile file2, FFile file0]) False test_data) = Inr False"
  using check_only_writes_nothing [of cedar "Many [FFile file2, FFile file0]" test_data]
  by (simp add: fixture_specs fixture_on_node cedar_tag)

text \<open>
  Claim C3. Let a file of the list be absent from the destination node, present on the
  source nodes on one node \<open>s\<close> only, not yet reserved under the tag in use and not yet
  requested from \<open>s\<close>. Then the call of \<^verbatim>\<open>reserve\<close> that is not check-only adds exactly
  one reservation row and exactly one transfer request for that file (the rows of the file
  afterwards are the rows before followed by the new one), and the same call made again
  right after it leaves the database as it is.
\<close>

theorem reserve_first_call_then_repeat:
  assumes tag: "m_tag m = Some t"
    and specs: "fixup_filespec m db files = Inr fs"
    and f: "f \<in> set fs"
    and np: "\<not> on_node m db f"
    and av: "on_source m db f"
    and one: "\<forall>c\<in>set (copy_table db).
                copy_on (file_id f) (map node_id (m_sources m)) c \<longrightarrow> copy_node c = s"
    and nr: "\<not> has_reservation m db f"
    and nq: "recall_request m f s \<notin> set (request_table db)"
  shows "\<exists>db1 r1 r2.
           reserve m files False db = (db1, Inr r1)
         \<and> filter (\<lambda>r. res_file r = file_id f) (reservation_table db1) =
             filter (\<lambda>r. res_file r = file_id f) (reservation_table db) @
               [\<lparr>res_file = file_id f, res_node = node_id (m_node m), res_tag = tag_id t\<rparr>]
         \<and> filter (\<lambda>q. req_file q = file_id f) (request_table db1) =
             filter (\<lambda>q. req_file q = file_id f) (request_table db) @ [recall_request m f s]
         \<and> reserve m files False db1 = (db1, Inr r2)"
proof -
  let ?db1 = "after_files m fs db"
  from reserve_tagged [OF tag, of files db] specs
  obtain sts where first: "reserve m files False db = (?db1, Inr (\<forall>f\<in>set fs. on_node m db f, sts))"
    by auto
  have "fixup_filespec m ?db1 files = Inr fs"
    using specs by (simp add: fixup_filespec_cong [of ?db1 db])
  with reserve_tagged [OF tag, of files ?db1]
  obtain sts2 where "reserve m files False ?db1 =
      (after_files m fs ?db1, Inr (\<forall>f\<in>set fs. on_node m ?db1 f, sts2))"
    by auto
  then have second: "reserve m files False ?db1 = (?db1, Inr (\<forall>f\<in>set fs. on_node m db f, sts2))"
    by (simp add: after_files_idem [OF tag])
  have res: "new_reservations m db f =
      [\<lparr>res_file = file_id f, res_node = node_id (m_node m), res_tag = tag_id t\<rparr>]"
    using nr by (simp add: new_reservations_def tag)
  from av obtain c where c: "find (copy_on (file_id f) (map node_id (m_sources m))) (copy_table db) = Some c"
    by (auto simp: on_source_find)
  then have "c \<in> set (copy_table db)" "copy_on (file_id f) (map node_id (m_sources m)) c"
    by (auto simp: find_Some_iff)
  with one have "copy_node c = s" by blast
  with c np nq have req: "new_requests m db f = [recall_request m f s]"
    by (simp add: new_requests_def)
  from f have mem: "file_id f \<in> file_id ` set fs" by blast
  have "filter (\<lambda>r. res_file r = file_id f) (reservation_table ?db1) =
          filter (\<lambda>r. res_file r = file_id f) (reservation_table db) @
            [\<lparr>res_file = file_id f, res_node = node_id (m_node m), res_tag = tag_id t\<rparr>]"
    by (simp add: reservations_of_after_files [OF tag] mem res)
  moreover have "filter (\<lambda>q. req_file q = file_id f) (request_table ?db1) =
          filter (\<lambda>q. req_file q = file_id f) (request_table db) @ [recall_request m f s]"
    by (simp add: requests_of_after_files mem req)
  ultimately show ?thesis using first second by blast
qed

theorem reserve_first_call_then_repeat_witness:
  "m_tag cedar = Some tag1
   \<and> fixup_filespec cedar test_data (One (FFile file2)) = Inr [file2]
   \<and> \<not> on_node cedar test_data file2
   \<and> on_source cedar test_data file2
   \<and> \<not> has_reservation cedar test_data file2
   \<and> recall_request cedar file2 2 \<notin> set (request_table test_data)
   \<and> (\<exists>db1 r1 r2.
         reserve cedar (One (FFile file2)) False test_data = (db1, Inr r1)
       \<and> filter (\<lambda>r. res_file r = 3) (reservation_table db1) =
           [\<lparr>res_file = 3, res_node = 1, res_tag = 1\<rparr>]
       \<and> filter (\<lambda>q. req_file q = 3) (request_table db1) =
           [\<lparr>req_file = 3, req_group_to = 1, req_node_from = 2, req_nice = 0,
             req_cancelled = False, req_completed = False, req_n_requests = 0,
             req_timestamp = 0\<rparr>]
       \<and> reserve cedar (One (FFile file2)) False db1 = (db1, Inr r2))"
proof -
  have mem: "file2 \<in> set [file2]" by simp
  have vals: "file_id file2 = 3" "node_id (m_node cedar) = 1" "tag_id tag1 = 1"
    "recall_request cedar file2 2 =
       \<lparr>req_file = 3, req_group_to = 1, req_node_from = 2, req_nice = 0,
        req_cancelled = False, req_completed = False, req_n_requests = 0, req_timestamp = 0\<rparr>"
    "reservation_table test_data = []" "request_table test_data = []"
    by (simp_all add: recall_request_def cedar_eq cedar_online_def file2_def tag1_def test_data_def)
  from reserve_first_call_then_repeat [OF cedar_tag fixture_file2(1) mem fixture_on_node(2)
      fixture_file2(2) fixture_file2(3) fixture_file2(4) fixture_file2(5)]
  have "\<exists>db1 r1 r2.
         reserve cedar (One (FFile file2)) False test_data = (db1, Inr r1)
       \<and> filter (\<lambda>r. res_file r = 3) (reservation_table db1) =
           [\<lparr>res_file = 3, res_node = 1, res_tag = 1\<rparr>]
       \<and> filter (\<lambda>q. req_file q = 3) (request_table db1) =
           [\<lparr>req_file = 3, req_group_to = 1, req_node_from = 2, req_nice = 0,
             req_cancelled = False, req_completed = False, req_n_requests = 0,
             req_timestamp = 0\<rparr>]
       \<and> reserve cedar (One (FFile file2)) False db1 = (db1, Inr r2)"
    unfolding vals by simp
  with cedar_tag fixture_file2(1,2,4,5) fixture_on_node(2) show ?thesis
    by blast
qed

text \<open>
  Claim C4. With no tags given and no tag in use, \<^verbatim>\<open>reserved_size\<close> raises
  \<^verbatim>\<open>ValueError("no tag in use")\<close>, as claimed. With a tag in use and no reservation at all
  it does not return 0: on the fixture, whose reservation table is empty, it raises
  \<open>AttributeError\<close>.
\<close>

theorem reserved_size_raises:
  "reserved_size cedar test_data None = Inl (AttributeError ''join'')
   \<and> reserved_size (init cedar_online) test_data None = Inl (ValueError NoTagInUse)"
  by (simp add: reserved_size_def autotags_def cedar_eq init_def)

text \<open>
  Claim C5. On the fixture, whose destination node has the root \<^verbatim>\<open>/test\<close>, the relative
  path \<^verbatim>\<open>acqpath/file2\<close> of two segments is not resolved to \<open>file2\<close>: the normalization
  raises the \<open>ValueError\<close> of \<^verbatim>\<open>relative_to\<close>. The same two names given as a tuple do
  resolve to \<open>file2\<close>.
\<close>

theorem relative_path_rejected:
  "fixup_filespec cedar test_data (One (FStr ''acqpath/file2'')) =
     Inl (ValueError (NotInSubpath [''acqpath'', ''file2''] [''/'', ''test'']))
   \<and> fixup_filespec cedar test_data (One (FTuple [''acqpath'', ''file2''])) = Inr [file2]"
  by (simp add: fixup_filespec_def path_to_tuple_def relative_to_def Path_def is_absolute_def
        lookup_file_def cedar_eq cedar_online_def test_data_def
        file0_def file1_def file2_def file3_def file4_def)

text \<open>
  Claim C6. On the fixture, the pair \<^verbatim>\<open>("acqpath", "file9")\<close>, which names no file, does
  not fail with the \<open>ValueError\<close> that names both segments: the normalization raises
  \<open>AttributeError\<close>. In a list it does so at the first entry that does not resolve,
  whatever comes after it, and gives no partial result.
\<close>

theorem missing_file_raises_attribute_error:
  "fixup_filespec cedar test_data (One (FTuple [''acqpath'', ''file9''])) =
     Inl (AttributeError ''NotFoundError'')
   \<and> fixup_filespec cedar test_data
        (Many [FTuple [''acqpath'', ''file2''], FTuple [''acqpath'', ''file9''], FTuple [''file0'']]) =
     Inl (AttributeError ''NotFoundError'')"
  by (simp add: fixup_filespec_def lookup_file_def test_data_def
        file0_def file1_def file2_def file3_def file4_def)

text \<open>
  Claim C7, as amended. When the tags resolve, \<^verbatim>\<open>all_reserved_files\<close> returns the files
  that have a reservation row on the manager's node under one of the tags, and each of them
  once per such row: as often as the file has such rows when the rows of the file table are
  distinct, as they are under a primary key (and in general that many times the number of
  rows the file has in the file table). The list is empty when no file has such a row.
\<close>

theorem all_reserved_files_rows:
  assumes "autotags m tags = Inr ts"
  shows "\<exists>fs. all_reserved_files m db tags = Inr fs
       \<and> set fs = {f \<in> set (file_table db). \<exists>r\<in>set (reservation_table db). reserving m ts f r}
       \<and> (\<forall>f. count_list fs f =
                count_list (file_table db) f * length (filter (reserving m ts f) (reservation_table db)))
       \<and> (distinct (file_table db) \<longrightarrow>
            (\<forall>f\<in>set (file_table db).
               count_list fs f = length (filter (reserving m ts f) (reservation_table db))))"
proof -
  let ?n = "\<lambda>f. length (filter (reserving m ts f) (reservation_table db))"
  let ?fs = "concat (map (\<lambda>f. replicate (?n f) f) (file_table db))"
  have pos: "0 < ?n f \<longleftrightarrow> (\<exists>r\<in>set (reservation_table db). reserving m ts f r)" for f
    by (simp add: filter_empty_conv)
  have "all_reserved_files m db tags = Inr ?fs"
    by (rule all_reserved_files_eq [OF assms])
  moreover have "set ?fs =
      {f \<in> set (file_table db). \<exists>r\<in>set (reservation_table db). reserving m ts f r}"
    unfolding set_rows pos ..
  moreover have cnt: "\<forall>f. count_list ?fs f = count_list (file_table db) f * ?n f"
    by (simp add: count_list_rows)
  moreover have "distinct (file_table db) \<longrightarrow>
      (\<forall>f\<in>set (file_table db). count_list ?fs f = ?n f)"
    by (simp add: cnt count_list_distinct)
  ultimately show ?thesis by blast
qed

theorem all_reserved_files_rows_witness:
  "autotags cedar (Some [tag1, tag2]) = Inr [tag1, tag2]
   \<and> distinct (file_table test_data_reserved)
   \<and> file0 \<in> set (file_table test_data_reserved)
   \<and> (\<exists>fs. all_reserved_files cedar test_data_reserved (Some [tag1, tag2]) = Inr fs
        \<and> set fs = {f \<in> set (file_table test_data_reserved).
                      \<exists>r\<in>set (reservation_table test_data_reserved). reserving cedar [tag1, tag2] f r}
        \<and> count_list fs file0 = 2)"
proof -
  have h: "autotags cedar (Some [tag1, tag2]) = Inr [tag1, tag2]"
    by (simp add: autotags_def)
  have d: "distinct (file_table test_data_reserved)" "file0 \<in> set (file_table test_data_reserved)"
    by (simp_all add: test_data_reserved_def test_data_def
          file0_def file1_def file2_def file3_def file4_def)
  have n: "length (filter (reserving cedar [tag1, tag2] file0) (reservation_table test_data_reserved)) = 2"
    by (simp add: reserving_def test_data_reserved_def test_data_def cedar_eq cedar_online_def
          tag1_def tag2_def file0_def)
  from all_reserved_files_rows [OF h, of test_data_reserved] d n
  have "\<exists>fs. all_reserved_files cedar test_data_reserved (Some [tag1, tag2]) = Inr fs
        \<and> set fs = {f \<in> set (file_table test_data_reserved).
                      \<exists>r\<in>set (reservation_table test_data_reserved). reserving cedar [tag1, tag2] f r}
        \<and> count_list fs file0 = 2"
    by auto
  with h d show ?thesis by blast
qed

text \<open>
  Against claim C7 as it was stated: \<open>file0\<close>, reserved on the node under \<open>tag1\<close> and
  under \<open>tag2\<close>, is returned twice for the tag list \<open>[tag1, tag2]\<close>.
\<close>

theorem all_reserved_files_counterexample:
  "all_reserved_files cedar test_data_reserved (Some [tag1, tag2]) = Inr [file0, file0]"
  by (simp add: all_reserved_files_def autotags_def test_data_reserved_def test_data_def
        cedar_eq cedar_online_def tag1_def tag2_def
        file0_def file1_def file2_def file3_def file4_def)

text \<open>
  Claim C8, as amended. A manager with no tag in use never writes: after \<^verbatim>\<open>reserve\<close>
  with \<^verbatim>\<open>check_only=False\<close> the database is the one before the call. The call raises what
  the normalization raises; for a list that resolves and is not empty it raises
  \<open>IntegrityError\<close> at the first file, when the insert of the reservation is refused; for
  the empty list it returns true.
\<close>

theorem reserve_without_tag:
  assumes "m_tag m = None"
  shows "fst (reserve m files False db) = db
       \<and> returned (reserve m files False db) =
           (case fixup_filespec m db files of
              Inl e \<Rightarrow> Inl e
            | Inr [] \<Rightarrow> Inr True
            | Inr (f # fs) \<Rightarrow> Inl (IntegrityError ''tag''))"
proof (intro conjI)
  show "fst (reserve m files False db) = db"
    by (simp add: reserve_untagged [OF assms])
qed (rule returned_untagged [OF assms])

theorem reserve_without_tag_witness:
  "m_tag (init cedar_online) = None
   \<and> fst (reserve (init cedar_online) (One (FFile file2)) False test_data) = test_data
   \<and> returned (reserve (init cedar_online) (One (FFile file2)) False test_data) =
       Inl (IntegrityError ''tag'')"
proof -
  have h: "m_tag (init cedar_online) = None" by (simp add: init_def)
  from reserve_without_tag [OF h, of "One (FFile file2)" test_data] h
  show ?thesis by (simp add: fixup_filespec_def)
qed

text \<open>
  Against claim C8 as it was stated: a manager just constructed, with no tag in use, is
  asked to reserve the empty list; the call does not fail, it returns true.
\<close>

theorem reserve_without_tag_counterexample:
  "returned (reserve (init cedar_online) (Many []) False test_data) = Inr True"
  by (simp add: reserve_def fixup_filespec_def returned_def)

text \<open>
  Claim C9. With \<open>file0\<close> reserved on \<open>cedar_online\<close> under two tags and on no other
  node, the tags of the rows with that file and node are the two tags for \<open>cedar_online\<close>
  and none for \<open>src1\<close>. \<^verbatim>\<open>reserved_in_node\<close> returns the same list for both nodes,
  whatever the database makes of the comparison with the model class, so it is wrong for
  one of them.
\<close>

theorem reserved_in_node_ignores_node:
  "reserved_in_node eq_StorageNode test_data_reserved file0 cedar_online =
     reserved_in_node eq_StorageNode test_data_reserved file0 src1
   \<and> [res_tag rec. rec \<leftarrow> reservation_table test_data_reserved,
         res_file rec = file_id file0 \<and> res_node rec = node_id cedar_online] = [tag_id tag1, tag_id tag2]
   \<and> [res_tag rec. rec \<leftarrow> reservation_table test_data_reserved,
         res_file rec = file_id file0 \<and> res_node rec = node_id src1] = []"
  by (simp add: reserved_in_node_def test_data_reserved_def test_data_def
        file0_def cedar_online_def src1_def tag1_def tag2_def)

text \<open>
  Claim C10. \<^verbatim>\<open>is_reserved(file)\<close> is \<^verbatim>\<open>reserve(file, check_only=True)\<close>; for one file
  specification it returns whether the file it resolves to is on the destination node (or
  raises what the normalization raises); and the reservation table has no part in what it
  returns.
\<close>

theorem is_reserved_is_presence:
  "is_reserved m file db = reserve m file True db
   \<and> returned (is_reserved m (One spec) db) = map_sum id (on_node m db) (fixup_one m db spec)
   \<and> returned (is_reserved m file (db\<lparr>reservation_table := rs\<rparr>)) = returned (is_reserved m file db)"
proof (intro conjI)
  show "is_reserved m file db = reserve m file True db"
    by (simp add: is_reserved_def)
  show "returned (is_reserved m (One spec) db) = map_sum id (on_node m db) (fixup_one m db spec)"
    by (cases "fixup_one m db spec")
       (simp_all add: is_reserved_def returned_check_only fixup_filespec_One)
  have "fixup_filespec m (db\<lparr>reservation_table := rs\<rparr>) file = fixup_filespec m db file"
    by (rule fixup_filespec_cong) simp_all
  then show "returned (is_reserved m file (db\<lparr>reservation_table := rs\<rparr>)) =
      returned (is_reserved m file db)"
    by (simp add: is_reserved_def returned_check_only on_node_def)
qed

theorem is_reserved_is_presence_witness:
  "returned (is_reserved cedar (One (FFile file0)) test_data) = Inr True
   \<and> returned (is_reserved cedar (One (FFile file2)) test_data) = Inr False
   \<and> returned (is_reserved cedar (One (FFile file0)) test_data_reserved) = Inr True"
proof -
  note file0 = is_reserved_is_presence [of cedar "One (FFile file0)" test_data "FFile file0"
      "[\<lparr>res_file = 1, res_node = 1, res_tag = 1\<rparr>, \<lparr>res_file = 1, res_node = 1, res_tag = 2\<rparr>]",
      THEN conjunct2]
  note file2 = is_reserved_is_presence [of cedar "One (FFile file2)" test_data "FFile file2" "[]",
      THEN conjunct2, THEN conjunct1]
  from file0 file2 show ?thesis
    by (simp add: fixture_on_node test_data_reserved_def)
qed

end
